theory Spec2Isabelle
  imports Main "HOL-Library.Word"
begin

section \<open>The device snapshot macro \<open>CHECK_DATA\<close>\<close>

text \<open>
  \<^verbatim>\<open>
  #define CHECK_DATA(varname, data_type, data_ptr, data_size, stream) \
      std::vector<data_type> varname(data_size); \
      CUDA_CHECK_THROW(cudaMemcpyAsync(varname.data(), data_ptr, data_size * sizeof(data_type), cudaMemcpyDeviceToHost, stream)); \
      cudaStreamSynchronize(stream);
  \<close>
  The macro is three statements. What they do depends on the host allocator and on the
  accelerator runtime, which the header only calls. The macro itself is embedded from the
  source (\<open>CHECK_DATA\<close> below); the primitives it calls are modelled from the
  specification, on an explicit machine state: host variables, host blocks, device memory
  and one queue of pending operations per stream.

  A macro is text. The arguments \<open>data_size\<close> and \<open>stream\<close> each stand in two places of
  the body, so each is evaluated twice, and \<open>data_size\<close> is pasted without parentheses
  in front of \<open>* sizeof(data_type)\<close>. The two arguments are therefore kept as
  expressions, not as values.
\<close>

subsection \<open>Data\<close>

type_synonym byte = "8 word"
type_synonym size_t = "64 word"

text \<open>\<open>cudaError_t\<close>: the status every runtime call returns.\<close>

datatype cudaError_t =
  cudaSuccess
| cudaErrorInvalidValue
| cudaErrorInvalidResourceHandle
| cudaErrorLaunchFailure

text \<open>The copy direction; the header only ever passes \<open>cudaMemcpyDeviceToHost\<close>.\<close>

datatype cudaMemcpyKind = cudaMemcpyDeviceToHost

text \<open>
  The macro argument \<open>data_type\<close>. The macro uses it twice: as the element type of the
  vector, whose elements are value-initialised, and under \<open>sizeof\<close>. An element is kept as
  its object representation, a block of \<open>sizeof\<close> bytes, which is what the copy moves.
\<close>

record data_type =
  sizeof :: size_t
  value_init :: "byte list"


text \<open>
  An operation waiting in a stream: the device-to-host copy the macro enqueues (host block,
  device address, byte count), or earlier device work, which maps device memory to device
  memory and fails when it yields \<open>None\<close>.
\<close>

datatype op =
  Memcpy_D2H nat nat nat
| Kernel "(nat \<Rightarrow> byte) \<Rightarrow> (nat \<Rightarrow> byte) option"

text \<open>
  The machine: the host variables an argument expression can read and write, the bytes the
  host allocator can still hand out, the host blocks handed out
  so far (a pointer to host memory is the index of its block), device memory with the extent
  of its valid addresses, the pending operations of every stream handle in issue order, and
  the error of the context, which stays once an operation has failed.
\<close>

record machine =
  host_vars :: "nat \<Rightarrow> size_t"
  host_free :: size_t
  host_heap :: "byte list list"
  device_size :: nat
  device_mem :: "nat \<Rightarrow> byte"
  streams :: "nat \<rightharpoonup> op list"
  sticky :: cudaError_t

text \<open>\<open>std::vector<data_type>\<close>: its storage (what \<open>data()\<close> returns) and its size.\<close>

record vector =
  vec_data :: nat
  vec_size :: size_t

text \<open>
  What leaves the macro instead of a result: \<open>std::bad_alloc\<close> or \<open>std::length_error\<close> of
  the vector's constructor, and the error \<open>CUDA_CHECK_THROW\<close> raises, which the
  specification calls \<open>DeviceOperationError\<close>.
\<close>

datatype error =
  Bad_alloc
| DeviceOperationError cudaError_t

subsection \<open>The primitives the macro calls\<close>

text \<open>
  Modelled from the spec: the constructor \<open>std::vector<data_type> varname(data_size)\<close> of the
  standard library, absent from the header. "Allocates a host sequence of exactly \<open>count\<close>
  elements", each value-initialised; it throws when the host has not that many bytes left.
  \<open>host_free\<close> is a \<open>size_t\<close>, so a successful allocation is below \<open>2 ^ 64\<close> bytes.
\<close>

definition vector_ctor :: "data_type \<Rightarrow> size_t \<Rightarrow> machine \<Rightarrow> error + vector \<times> machine" where
  "vector_ctor T n m =
     (if unat n * unat (sizeof T) \<le> unat (host_free m)
      then Inr (\<lparr>vec_data = length (host_heap m), vec_size = n\<rparr>,
                m\<lparr>host_free := host_free m - n * sizeof T,
                  host_heap := host_heap m @ [concat (replicate (unat n) (value_init T))]\<rparr>)
      else Inl Bad_alloc)"

text \<open>Element \<open>i\<close> of a vector, and the whole sequence, read from the host blocks.\<close>

definition vector_at :: "data_type \<Rightarrow> machine \<Rightarrow> vector \<Rightarrow> nat \<Rightarrow> byte list" where
  "vector_at T m v i =
     take (unat (sizeof T)) (drop (i * unat (sizeof T)) (host_heap m ! vec_data v))"

definition vector_elems :: "data_type \<Rightarrow> machine \<Rightarrow> vector \<Rightarrow> byte list list" where
  "vector_elems T m v = map (vector_at T m v) [0..<unat (vec_size v)]"

text \<open>Element \<open>i\<close> of the device buffer at address \<open>p\<close>, and its first \<open>n\<close> elements.\<close>

definition device_at :: "data_type \<Rightarrow> (nat \<Rightarrow> byte) \<Rightarrow> nat \<Rightarrow> nat \<Rightarrow> byte list" where
  "device_at T d p i =
     map d [p + i * unat (sizeof T)..<p + i * unat (sizeof T) + unat (sizeof T)]"

definition device_elems :: "data_type \<Rightarrow> (nat \<Rightarrow> byte) \<Rightarrow> nat \<Rightarrow> nat \<Rightarrow> byte list list" where
  "device_elems T d p n = map (device_at T d p) [0..<n]"

text \<open>
  Modelled from the spec: \<open>cudaMemcpyAsync\<close> of the accelerator runtime, absent from the
  header: "enqueue-async-copy(dst, src, byteCount, direction, stream)". It does not block
  and moves nothing yet: the copy joins the end of the stream's queue. It cannot be
  enqueued when the context already holds an error, when the stream handle is invalid, or
  when a pointer does not cover \<open>count\<close> bytes.
\<close>

definition cudaMemcpyAsync ::
  "nat \<Rightarrow> nat \<Rightarrow> size_t \<Rightarrow> cudaMemcpyKind \<Rightarrow> nat \<Rightarrow> machine \<Rightarrow> cudaError_t \<times> machine" where
  "cudaMemcpyAsync dst src count kind stream m =
     (if sticky m \<noteq> cudaSuccess then (sticky m, m)
      else case streams m stream of
        None \<Rightarrow> (cudaErrorInvalidResourceHandle, m)
      | Some q \<Rightarrow>
          if dst < length (host_heap m) \<and> unat count \<le> length (host_heap m ! dst)
             \<and> src + unat count \<le> device_size m
          then (cudaSuccess,
                m\<lparr>streams := (streams m)(stream \<mapsto> q @ [Memcpy_D2H dst src (unat count)])\<rparr>)
          else (cudaErrorInvalidValue, m))"

text \<open>
  Modelled from the spec: the macro \<open>CUDA_CHECK_THROW\<close> of tiny-cuda-nn, absent from the
  header: "check-or-abort(result)". A status other than \<open>cudaSuccess\<close> ends the
  operation with an error; the statements after it do not run.
\<close>

definition CUDA_CHECK_THROW :: "cudaError_t \<times> machine \<Rightarrow> error + machine" where
  "CUDA_CHECK_THROW r =
     (case r of (result, m) \<Rightarrow>
        if result \<noteq> cudaSuccess then Inl (DeviceOperationError result) else Inr m)"

text \<open>
  The operations of one stream run in issue order. A copy overwrites the first \<open>n\<close> bytes
  of its host block with the device bytes at \<open>src\<close>; device work transforms device memory.
  At the first operation that fails the run stops: the operations behind it complete in
  error and never execute.
\<close>

fun run_ops ::
  "op list \<Rightarrow> byte list list \<Rightarrow> (nat \<Rightarrow> byte) \<Rightarrow> cudaError_t \<times> byte list list \<times> (nat \<Rightarrow> byte)" where
  "run_ops [] h d = (cudaSuccess, h, d)"
| "run_ops (Memcpy_D2H dst src n # ops) h d =
     run_ops ops (h[dst := map d [src..<src + n] @ drop n (h ! dst)]) d"
| "run_ops (Kernel k # ops) h d =
     (case k d of None \<Rightarrow> (cudaErrorLaunchFailure, h, d) | Some d' \<Rightarrow> run_ops ops h d')"

text \<open>
  Modelled from the spec: \<open>cudaStreamSynchronize\<close> of the accelerator runtime, absent from
  the header: "block the calling thread until all previously enqueued operations on a given
  stream have completed". It returns the status of that work: an asynchronous failure of an
  operation enqueued earlier is reported here, and stays in the context.
\<close>

definition cudaStreamSynchronize :: "nat \<Rightarrow> machine \<Rightarrow> cudaError_t \<times> machine" where
  "cudaStreamSynchronize stream m =
     (if sticky m \<noteq> cudaSuccess then (sticky m, m)
      else case streams m stream of
        None \<Rightarrow> (cudaErrorInvalidResourceHandle, m)
      | Some q \<Rightarrow>
          (case run_ops q (host_heap m) (device_mem m) of (result, h, d) \<Rightarrow>
             (result, m\<lparr>host_heap := h, device_mem := d,
                        streams := (streams m)(stream \<mapsto> []), sticky := result\<rparr>)))"

subsection \<open>The argument expressions\<close>

text \<open>
  The text of an argument, as the compiler parses it where it stands alone: a literal, a
  variable \<open>v\<close>, an array element \<open>a[e]\<close>, \<open>v++\<close>, \<open>v--\<close>, a parenthesised
  expression, a product, a sum or a difference. Parentheses are part of the text, so they
  are a constructor. All arithmetic is \<open>size_t\<close> arithmetic, as it is next to \<open>sizeof\<close>.
\<close>

datatype expr =
  Lit size_t
| Var nat
| Elem nat expr
| PostInc nat
| PostDec nat
| Paren expr
| Mul expr expr
| Add expr expr
| Sub expr expr

text \<open>
  Evaluation, with its side effects on the host variables. The array \<open>a\<close> starts at the
  variable \<open>a\<close>. Operands are evaluated from left to right.
\<close>

fun eval :: "expr \<Rightarrow> machine \<Rightarrow> size_t \<times> machine" where
  "eval (Lit c) m = (c, m)"
| "eval (Var v) m = (host_vars m v, m)"
| "eval (Elem a e) m = (case eval e m of (i, m') \<Rightarrow> (host_vars m' (a + unat i), m'))"
| "eval (PostInc v) m = (host_vars m v, m\<lparr>host_vars := (host_vars m)(v := host_vars m v + 1)\<rparr>)"
| "eval (PostDec v) m = (host_vars m v, m\<lparr>host_vars := (host_vars m)(v := host_vars m v - 1)\<rparr>)"
| "eval (Paren e) m = eval e m"
| "eval (Mul a b) m =
     (case eval a m of (x, m') \<Rightarrow> case eval b m' of (y, m'') \<Rightarrow> (x * y, m''))"
| "eval (Add a b) m =
     (case eval a m of (x, m') \<Rightarrow> case eval b m' of (y, m'') \<Rightarrow> (x + y, m''))"
| "eval (Sub a b) m =
     (case eval a m of (x, m') \<Rightarrow> case eval b m' of (y, m'') \<Rightarrow> (x - y, m''))"

text \<open>
  What the text \<open>e * r\<close> is parsed as when the text of \<open>e\<close> is pasted in front of
  \<open>* r\<close> without parentheses: \<open>*\<close> binds tighter than \<open>+\<close> and \<open>-\<close>, so it takes
  only the last operand of a sum or difference.
\<close>

fun paste_times :: "expr \<Rightarrow> expr \<Rightarrow> expr" where
  "paste_times (Add a b) r = Add a (paste_times b r)"
| "paste_times (Sub a b) r = Sub a (paste_times b r)"
| "paste_times e r = Mul e r"



subsection \<open>The macro\<close>

text \<open>
  \<open>CHECK_DATA\<close>, statement by statement, with the arguments pasted where the parameters
  stand. Line 11: \<open>data_size\<close> is evaluated and the vector constructed. Line 12: the text
  \<open>data_size * sizeof(data_type)\<close> is evaluated (\<open>data_size\<close> a second time, unparenthesised;
  a \<open>size_t\<close> product, which wraps), then \<open>stream\<close>, and the copy is enqueued under
  \<open>CUDA_CHECK_THROW\<close>. Line 13: \<open>stream\<close> is evaluated a second time, that stream is
  synchronised and the status of the call is dropped. The code after the macro sees the
  variable \<open>varname\<close> and the machine. \<open>varname\<close> and \<open>data_ptr\<close> stand once in the body;
  \<open>data_ptr\<close> is taken as the device address it denotes. The language leaves the order
  open in which the arguments of one call are evaluated; here the byte count comes before the
  stream.
\<close>

definition CHECK_DATA ::
  "data_type \<Rightarrow> nat \<Rightarrow> expr \<Rightarrow> expr \<Rightarrow> machine \<Rightarrow> error + vector \<times> machine" where
  "CHECK_DATA T data_ptr data_size stream m =
     (case eval data_size m of (n, m0) \<Rightarrow>
      case vector_ctor T n m0 of
        Inl e \<Rightarrow> Inl e
      | Inr (varname, m1) \<Rightarrow>
          (case eval (paste_times data_size (Lit (sizeof T))) m1 of (count, m2) \<Rightarrow>
           case eval stream m2 of (s, m3) \<Rightarrow>
           case CUDA_CHECK_THROW
                  (cudaMemcpyAsync (vec_data varname) data_ptr count
                     cudaMemcpyDeviceToHost (unat s) m3) of
             Inl e \<Rightarrow> Inl e
           | Inr m4 \<Rightarrow>
               (case eval stream m4 of (s', m5) \<Rightarrow>
                  Inr (varname, snd (cudaStreamSynchronize (unat s') m5)))))"

text \<open>The host sequence the caller reads in \<open>varname\<close> once the macro has run.\<close>

definition snapshot :: "data_type \<Rightarrow> nat \<Rightarrow> expr \<Rightarrow> expr \<Rightarrow> machine \<Rightarrow> error + byte list list" where
  "snapshot T data_ptr data_size stream m =
     (case CHECK_DATA T data_ptr data_size stream m of
        Inl e \<Rightarrow> Inl e
      | Inr (varname, m') \<Rightarrow> Inr (vector_elems T m' varname))"


subsection \<open>Concrete machines\<close>

text \<open>
  A two-byte element type, and three machines whose device memory holds the bytes 1 to 8
  at the addresses 0 to 7. The host variables are an array \<open>streams\<close> of the two handles
  1 and 2 (variables 0 and 1), an index \<open>i = 0\<close> (variable 2) and a count \<open>n = 2\<close>
  (variable 3). On \<open>machine_busy\<close> the only stream, 1, still holds device work that will
  store 9 at address 0; on \<open>machine_fault\<close> it holds device work that will fail; on
  \<open>machine_idle\<close> the streams 1 and 2 exist and nothing is pending.
\<close>

definition u16 :: data_type where
  "u16 = \<lparr>sizeof = 2, value_init = [0, 0]\<rparr>"


definition machine_fault :: machine where
  "machine_fault =
     \<lparr>host_vars = (\<lambda>v. [1, 2, 0, 2] ! v), host_free = 64, host_heap = [], device_size = 8,
      device_mem = (\<lambda>a. [1, 2, 3, 4, 5, 6, 7, 8] ! a),
      streams = [1 \<mapsto> [Kernel (\<lambda>d. None)]],
      sticky = cudaSuccess\<rparr>"

definition machine_idle :: machine where
  "machine_idle =
     \<lparr>host_vars = (\<lambda>v. [1, 2, 0, 2] ! v), host_free = 64, host_heap = [], device_size = 8,
      device_mem = (\<lambda>a. [1, 2, 3, 4, 5, 6, 7, 8] ! a),
      streams = [1 \<mapsto> [], 2 \<mapsto> []],
      sticky = cudaSuccess\<rparr>"

section \<open>The accessor macros \<open>READWRITE_PROPERTY\<close> and \<open>READONLY_PROPERTY\<close>\<close>

text \<open>
  \<^verbatim>\<open>
  #define READWRITE_PROPERTY(type, name, default) \
      private: \
          type name = default; \
      public: \
          type get_##name() const { return name; } \
          void set_##name(type value) { name = value; }

  #define READONLY_PROPERTY(type, name, default) \
      private: \
          type name = default; \
      public: \
          type get_##name() const { return name; }
  \<close>
  An object of a class that declares one field with \<open>READWRITE_PROPERTY\<close> and one with
  \<open>READONLY_PROPERTY\<close>. The record field \<open>name\<close> is the storage of the first,
  \<open>ro_name\<close> that of the second, and the extension of the record stands for every other
  member of the class. The macros are text: the identifier the argument \<open>name\<close> spells
  matters where the generated body mentions other identifiers, so the setter takes it as
  \<open>ident\<close>.
\<close>

record ('t, 'r) object =
  name :: 't
  ro_name :: 'r

text \<open>
  Construction runs the default member initialisers \<open>type name = default;\<close> of the two
  declarations.
\<close>

definition construct :: "'t \<Rightarrow> 'r \<Rightarrow> 'z \<Rightarrow> ('t, 'r, 'z) object_scheme" where
  "construct default' ro_default others =
     \<lparr>name = default', ro_name = ro_default, \<dots> = others\<rparr>"

text \<open>
  The generated member functions, as functions from the object to the returned value and
  the object afterwards.
\<close>

definition get_name :: "('t, 'r, 'z) object_scheme \<Rightarrow> 't \<times> ('t, 'r, 'z) object_scheme" where
  "get_name this = (name this, this)"

text \<open>
  \<open>void set_##name(type value) { name = value; }\<close>: inside the body the parameter
  \<open>value\<close> hides a member of that name. For a field spelled \<open>value\<close> both sides of the
  assignment are the parameter and the member is not written; for any other field the
  member is assigned.
\<close>

definition set_name ::
  "string \<Rightarrow> 't \<Rightarrow> ('t, 'r, 'z) object_scheme \<Rightarrow> unit \<times> ('t, 'r, 'z) object_scheme" where
  "set_name ident value this =
     (if ident = ''value'' then ((), this) else ((), this\<lparr>name := value\<rparr>))"

definition get_ro_name :: "('t, 'r, 'z) object_scheme \<Rightarrow> 'r \<times> ('t, 'r, 'z) object_scheme" where
  "get_ro_name this = (ro_name this, this)"

text \<open>
  The public members the two declarations generate, and a caller outside the class using
  them in any order.
\<close>

datatype 't call = Get_name | Set_name 't | Get_ro_name

fun invoke ::
  "string \<Rightarrow> 't call \<Rightarrow> ('t, 'r, 'z) object_scheme \<Rightarrow> ('t, 'r, 'z) object_scheme" where
  "invoke ident Get_name this = snd (get_name this)"
| "invoke ident (Set_name value) this = snd (set_name ident value this)"
| "invoke ident Get_ro_name this = snd (get_ro_name this)"

section \<open>Properties of the snapshot\<close>

subsection \<open>Arithmetic and slices\<close>





subsection \<open>Running a queue\<close>






subsection \<open>The three statements\<close>



subsection \<open>Evaluating an argument\<close>









subsection \<open>The macro on plain arguments\<close>








text \<open>
  Outside the hypotheses of C1 the macro text decides. With the count \<open>1 + 1\<close> the vector
  has two elements and the byte count is \<open>1 + 1 * sizeof(T)\<close>, three bytes: the second
  element is half copied. With the count \<open>n--\<close>, \<open>n = 2\<close>, the vector has two elements
  and the second evaluation gives 1: one element is copied.
\<close>

lemma snapshot_of_unparenthesised_sum:
  "snapshot u16 0 (Add (Lit 1) (Lit 1)) (Lit 1) machine_idle = Inr [[1, 2], [3, 0]]"
  by code_simp

lemma snapshot_of_decremented_count:
  "snapshot u16 0 (PostDec 3) (Lit 1) machine_idle = Inr [[1, 2], [0, 0]]"
  by code_simp

text \<open>
  C2. The claim: the snapshot fails with a \<open>DeviceOperationError\<close> when the copy cannot
  be enqueued and when stream synchronisation reports a prior asynchronous failure. The
  macro puts the copy under \<open>CUDA_CHECK_THROW\<close> and drops the status of
  \<open>cudaStreamSynchronize\<close>: on \<open>machine_fault\<close>, where the device work pending on
  stream 1 fails, synchronisation reports \<open>cudaErrorLaunchFailure\<close> (the error the
  context holds afterwards) and the macro returns normally.
\<close>

theorem CHECK_DATA_ignores_synchronize_status:
  "(case CHECK_DATA u16 0 (Lit 2) (Lit 1) machine_fault of
      Inl e \<Rightarrow> False
    | Inr (varname, m') \<Rightarrow> sticky m' = cudaErrorLaunchFailure)"
  by code_simp

text \<open>
  C3. The claim: a snapshot never returns normally with a partial or corrupted result. On
  \<open>machine_fault\<close> the copy never executes, since the work before it on the stream fails,
  and the macro returns normally with the vector as it was constructed: two
  value-initialised elements, while the device buffer holds \<open>[1, 2]\<close> and \<open>[3, 4]\<close>.
\<close>

theorem snapshot_unpopulated_after_fault:
  "snapshot u16 0 (Lit 2) (Lit 1) machine_fault = Inr [[0, 0], [0, 0]]
   \<and> device_elems u16 (device_mem machine_fault) 0 2 = [[1, 2], [3, 4]]"
  by code_simp

text \<open>
  C4. The claim: when the snapshot returns, nothing is pending on the given stream, the
  snapshot's own copy included. The macro expands \<open>stream\<close> twice, once for the copy and
  once for the synchronisation. With the stream argument \<open>streams[i++]\<close> on
  \<open>machine_idle\<close> the copy is enqueued on stream 1 and stream 2 is synchronised: the
  macro returns while the copy is still pending on stream 1, and the vector holds two
  value-initialised elements instead of the buffer's \<open>[1, 2]\<close> and \<open>[3, 4]\<close>.
\<close>

theorem CHECK_DATA_synchronizes_other_stream:
  "(case CHECK_DATA u16 0 (Lit 2) (Elem 0 (PostInc 2)) machine_idle of
      Inl e \<Rightarrow> False
    | Inr (varname, m') \<Rightarrow>
        map_option length (streams m' 1) = Some 1
        \<and> map_option length (streams m' 2) = Some 0
        \<and> vector_elems u16 m' varname = [[0, 0], [0, 0]])
   \<and> device_elems u16 (device_mem machine_idle) 0 2 = [[1, 2], [3, 4]]"
  by code_simp

text \<open>
  C5. The claim: with an element count of 0 the snapshot returns the empty sequence, copies
  nothing and still synchronises. The macro pastes \<open>data_size\<close> without parentheses. With
  the count \<open>n - 2\<close>, \<open>n = 2\<close>, on \<open>machine_idle\<close> the count is 0 and the vector is
  empty, but the byte count is \<open>n - 2 * sizeof(T)\<close>, which wraps below zero: the copy
  cannot be enqueued and the macro ends with a \<open>DeviceOperationError\<close> before it
  synchronises. The same count in parentheses returns the empty sequence.
\<close>

theorem snapshot_of_nothing_written_as_difference:
  "fst (eval (Sub (Var 3) (Lit 2)) machine_idle) = 0
   \<and> snapshot u16 0 (Sub (Var 3) (Lit 2)) (Lit 1) machine_idle
       = Inl (DeviceOperationError cudaErrorInvalidValue)
   \<and> snapshot u16 0 (Paren (Sub (Var 3) (Lit 2))) (Lit 1) machine_idle = Inr []"
  by (simp add: snapshot_def CHECK_DATA_def vector_ctor_def cudaMemcpyAsync_def
      CUDA_CHECK_THROW_def cudaStreamSynchronize_def vector_elems_def
      u16_def machine_idle_def)

subsection \<open>The order of allocation and enqueue\<close>





section \<open>Properties of the accessors\<close>

text \<open>
  C6. The claim: after \<open>set_name(v)\<close>, \<open>get_name()\<close> returns \<open>v\<close>, for every field
  declared with \<open>READWRITE_PROPERTY\<close>. The setter's parameter is called \<open>value\<close>. For
  \<open>READWRITE_PROPERTY(int, value, 5)\<close> the generated body is \<open>value = value;\<close>, which
  assigns the parameter to itself: after \<open>set_value(7)\<close>, \<open>get_value()\<close> still returns the
  default 5.
\<close>

theorem set_value_does_not_write:
  "fst (get_name (snd (set_name ''value'' (7 :: int) (construct (5 :: int) (0 :: int) ())))) = 5"
  by code_simp

text \<open>
  The rest of C6 holds: the getter returns the default right after construction, and the
  value set for a field of any other name.
\<close>

lemma get_name_after_construct:
  "fst (get_name (construct default' ro_default others)) = default'"
  by (simp add: get_name_def construct_def)

lemma get_name_after_set_name:
  "ident \<noteq> ''value'' \<Longrightarrow> fst (get_name (snd (set_name ident value this))) = value"
  by (simp add: get_name_def set_name_def)

text \<open>
  C7. \<open>set_name(v)\<close> changes at most the one field: putting the old value of the field back
  gives the object as it was, and the field declared with \<open>READONLY_PROPERTY\<close> and every
  other member are unchanged. \<open>get_name()\<close> leaves the object as it was, and a call of it
  anywhere in a sequence of calls does not change the object the sequence ends in.
\<close>

theorem readwrite_accessors_frame:
  "(snd (set_name ident value this))\<lparr>name := name this\<rparr> = this
   \<and> ro_name (snd (set_name ident value this)) = ro_name this
   \<and> object.more (snd (set_name ident value this)) = object.more this
   \<and> snd (get_name this) = this
   \<and> fold (invoke ident) (calls @ Get_name # calls') this = fold (invoke ident) (calls @ calls') this"
  by (simp add: get_name_def set_name_def)

lemma invoke_ro_name: "ro_name (invoke ident c this) = ro_name this"
  by (cases c) (simp_all add: get_name_def set_name_def get_ro_name_def)

lemma fold_invoke_ro_name: "ro_name (fold (invoke ident) calls this) = ro_name this"
  by (induction calls arbitrary: this) (simp_all add: invoke_ro_name)

text \<open>
  C8. For a field declared with \<open>READONLY_PROPERTY\<close> the declaration generates
  \<open>get_ro_name()\<close> and no mutator: after any sequence of calls of the generated public
  members on a constructed object, \<open>get_ro_name()\<close> returns the declared default.
\<close>

theorem readonly_field_keeps_default:
  "fst (get_ro_name (fold (invoke ident) calls (construct default' ro_default others))) = ro_default"
  by (simp add: get_ro_name_def fold_invoke_ro_name construct_def)

text \<open>
  C10. The mutator overwrites: \<open>set_name(v1)\<close> followed by \<open>set_name(v2)\<close> leaves the
  object in the state \<open>set_name(v2)\<close> alone produces, setting the same value twice is
  setting it once, and \<open>set_name(get_name())\<close> leaves the object unchanged.
\<close>

theorem set_name_last_write_wins:
  "snd (set_name ident v2 (snd (set_name ident v1 this))) = snd (set_name ident v2 this)
   \<and> snd (set_name ident v (snd (set_name ident v this))) = snd (set_name ident v this)
   \<and> snd (set_name ident (fst (get_name this)) this) = this"
  by (simp add: get_name_def set_name_def)

end
